theory Spec2Isabelle
  imports Complex_Main
begin

section \<open>Battery management system: classifier and estimators\<close>

text \<open>
  The development follows the C++ sources \<^verbatim>\<open>inc/Constants.h\<close>,
  \<^verbatim>\<open>inc/BMS_States.h\<close>, \<^verbatim>\<open>src/BatteryCell.cpp\<close>,
  \<^verbatim>\<open>src/SafetyManager.cpp\<close> and \<^verbatim>\<open>src/BMS.cpp\<close>.

  Numbers. Every quantity of the program is a C++ \<^verbatim>\<open>float\<close>. In the first
  part it is modelled by the real number it denotes: comparisons are exact, and
  arithmetic is the arithmetic of the reals (no rounding, no overflow to infinity, no
  NaN); the theorems of that part are statements about finite readings under exact
  arithmetic. Whether the accumulators stay within their bounds depends on overflow and
  on NaN, so the two estimators are modelled a second time in IEEE 754 binary32
  arithmetic, with rounding, infinities and NaN; the names of that part end in \<open>_f\<close>.
  The cell index is a \<^verbatim>\<open>uint8_t\<close> that only takes the values 0 to 3; it is a
  natural number.

  Console output (\<^verbatim>\<open>std::cout\<close>, \<^verbatim>\<open>logEvent\<close>, \<^verbatim>\<open>handleFault\<close>) changes no
  field of the program state and is left out, except the transition line printed by
  \<^verbatim>\<open>SafetyManager::evaluate\<close>, which is returned next to the new state.
\<close>

subsection \<open>inc/Constants.h\<close>

definition NUM_CELLS :: nat where
  "NUM_CELLS = 4"

definition NOMINAL_CAPACITY_MAH :: real where
  "NOMINAL_CAPACITY_MAH = 3000.0"

definition CHARGE_EFFICIENCY :: real where
  "CHARGE_EFFICIENCY = 0.98"

definition SOC_FULL_THRESHOLD_PERCENT :: real where
  "SOC_FULL_THRESHOLD_PERCENT = 98.0"

definition SOC_EMPTY_THRESHOLD_PERCENT :: real where
  "SOC_EMPTY_THRESHOLD_PERCENT = 10.0"

definition MIN_VOLTAGE_NORMAL :: real where
  "MIN_VOLTAGE_NORMAL = 3.00"

definition MIN_VOLTAGE_WARNING :: real where
  "MIN_VOLTAGE_WARNING = 2.80"

definition MIN_VOLTAGE_CRITICAL :: real where
  "MIN_VOLTAGE_CRITICAL = 2.50"

definition MIN_VOLTAGE_FAULT :: real where
  "MIN_VOLTAGE_FAULT = 1.00"

definition MAX_VOLTAGE_NORMAL :: real where
  "MAX_VOLTAGE_NORMAL = 4.20"

definition MAX_VOLTAGE_WARNING :: real where
  "MAX_VOLTAGE_WARNING = 4.30"

definition MAX_VOLTAGE_CRITICAL :: real where
  "MAX_VOLTAGE_CRITICAL = 4.40"

definition MAX_VOLTAGE_FAULT :: real where
  "MAX_VOLTAGE_FAULT = 4.80"

definition MIN_TEMP_NORMAL :: real where
  "MIN_TEMP_NORMAL = 0.0"

definition MIN_TEMP_WARNING :: real where
  "MIN_TEMP_WARNING = - 5.0"

definition MIN_TEMP_CRITICAL :: real where
  "MIN_TEMP_CRITICAL = - 10.0"

definition MIN_TEMP_FAULT :: real where
  "MIN_TEMP_FAULT = - 20.0"

definition MAX_TEMP_NORMAL :: real where
  "MAX_TEMP_NORMAL = 45.0"

definition MAX_TEMP_WARNING :: real where
  "MAX_TEMP_WARNING = 50.0"

definition MAX_TEMP_CRITICAL :: real where
  "MAX_TEMP_CRITICAL = 60.0"

definition MAX_TEMP_FAULT :: real where
  "MAX_TEMP_FAULT = 70.0"

definition IDLE_CURRENT_THRESHOLD_A :: real where
  "IDLE_CURRENT_THRESHOLD_A = 0.05"

definition MAX_DISCHARGE_CURRENT_NORMAL_A :: real where
  "MAX_DISCHARGE_CURRENT_NORMAL_A = 10.0"

definition MAX_DISCHARGE_CURRENT_WARNING_A :: real where
  "MAX_DISCHARGE_CURRENT_WARNING_A = 15.0"

definition MAX_DISCHARGE_CURRENT_CRITICAL_A :: real where
  "MAX_DISCHARGE_CURRENT_CRITICAL_A = 20.0"

definition MAX_CHARGE_CURRENT_NORMAL_A :: real where
  "MAX_CHARGE_CURRENT_NORMAL_A = 2.0"

definition MAX_CHARGE_CURRENT_WARNING_A :: real where
  "MAX_CHARGE_CURRENT_WARNING_A = 3.0"

definition MAX_CHARGE_CURRENT_CRITICAL_A :: real where
  "MAX_CHARGE_CURRENT_CRITICAL_A = 4.0"

definition SOH_THRESHOLD_WARNING :: real where
  "SOH_THRESHOLD_WARNING = 80.0"

definition SOH_THRESHOLD_CRITICAL :: real where
  "SOH_THRESHOLD_CRITICAL = 60.0"

subsection \<open>inc/BMS_States.h and inc/BatteryCell.h\<close>

datatype SystemState = NORMAL | WARNING | CRITICAL | FAULT

record BatteryCell =
  m_id :: nat
  m_voltage :: real
  m_temperature :: real

subsection \<open>src/SafetyManager.cpp: the band predicates\<close>

definition isVoltageNormal :: "real \<Rightarrow> bool" where
  "isVoltageNormal voltage \<longleftrightarrow>
     voltage \<ge> MIN_VOLTAGE_NORMAL \<and> voltage \<le> MAX_VOLTAGE_NORMAL"

definition isVoltageWarning :: "real \<Rightarrow> bool" where
  "isVoltageWarning voltage \<longleftrightarrow>
     (voltage \<ge> MIN_VOLTAGE_WARNING \<and> voltage < MIN_VOLTAGE_NORMAL) \<or>
     (voltage > MAX_VOLTAGE_NORMAL \<and> voltage \<le> MAX_VOLTAGE_WARNING)"

definition isVoltageCritical :: "real \<Rightarrow> bool" where
  "isVoltageCritical voltage \<longleftrightarrow>
     (voltage \<ge> MIN_VOLTAGE_CRITICAL \<and> voltage < MIN_VOLTAGE_WARNING) \<or>
     (voltage > MAX_VOLTAGE_WARNING \<and> voltage \<le> MAX_VOLTAGE_CRITICAL)"

definition isVoltageFault :: "real \<Rightarrow> bool" where
  "isVoltageFault voltage \<longleftrightarrow>
     voltage < MIN_VOLTAGE_FAULT \<or> voltage > MAX_VOLTAGE_FAULT"

definition isTemperatureNormal :: "real \<Rightarrow> bool" where
  "isTemperatureNormal temperature \<longleftrightarrow>
     temperature \<ge> MIN_TEMP_NORMAL \<and> temperature \<le> MAX_TEMP_NORMAL"

definition isTemperatureWarning :: "real \<Rightarrow> bool" where
  "isTemperatureWarning temperature \<longleftrightarrow>
     (temperature \<ge> MIN_TEMP_WARNING \<and> temperature < MIN_TEMP_NORMAL) \<or>
     (temperature > MAX_TEMP_NORMAL \<and> temperature \<le> MAX_TEMP_WARNING)"

definition isTemperatureCritical :: "real \<Rightarrow> bool" where
  "isTemperatureCritical temperature \<longleftrightarrow>
     (temperature \<ge> MIN_TEMP_CRITICAL \<and> temperature < MIN_TEMP_WARNING) \<or>
     (temperature > MAX_TEMP_WARNING \<and> temperature \<le> MAX_TEMP_CRITICAL)"

definition isTemperatureFault :: "real \<Rightarrow> bool" where
  "isTemperatureFault temperature \<longleftrightarrow>
     temperature < MIN_TEMP_FAULT \<or> temperature > MAX_TEMP_FAULT"

definition isCurrentNormal :: "real \<Rightarrow> bool" where
  "isCurrentNormal current =
     (if current > IDLE_CURRENT_THRESHOLD_A
      then current \<le> MAX_CHARGE_CURRENT_NORMAL_A
      else if current < - IDLE_CURRENT_THRESHOLD_A
      then current \<ge> - MAX_DISCHARGE_CURRENT_NORMAL_A
      else True)"

definition isCurrentWarning :: "real \<Rightarrow> bool" where
  "isCurrentWarning current =
     (if current > IDLE_CURRENT_THRESHOLD_A
      then current > MAX_CHARGE_CURRENT_NORMAL_A \<and> current \<le> MAX_CHARGE_CURRENT_WARNING_A
      else if current < - IDLE_CURRENT_THRESHOLD_A
      then current < - MAX_DISCHARGE_CURRENT_NORMAL_A \<and>
           current \<ge> - MAX_DISCHARGE_CURRENT_WARNING_A
      else False)"

definition isCurrentCritical :: "real \<Rightarrow> bool" where
  "isCurrentCritical current =
     (if current > IDLE_CURRENT_THRESHOLD_A
      then current > MAX_CHARGE_CURRENT_WARNING_A \<and> current \<le> MAX_CHARGE_CURRENT_CRITICAL_A
      else if current < - IDLE_CURRENT_THRESHOLD_A
      then current < - MAX_DISCHARGE_CURRENT_WARNING_A \<and>
           current \<ge> - MAX_DISCHARGE_CURRENT_CRITICAL_A
      else False)"

definition isSoHNormal :: "real \<Rightarrow> bool" where
  "isSoHNormal soh \<longleftrightarrow> soh \<ge> SOH_THRESHOLD_WARNING"

definition isSoHWarning :: "real \<Rightarrow> bool" where
  "isSoHWarning soh \<longleftrightarrow> soh \<ge> SOH_THRESHOLD_CRITICAL \<and> soh < SOH_THRESHOLD_WARNING"

definition isSoHCritical :: "real \<Rightarrow> bool" where
  "isSoHCritical soh \<longleftrightarrow> soh < SOH_THRESHOLD_CRITICAL"

subsection \<open>src/SafetyManager.cpp: evaluate\<close>

record SafetyManager =
  m_currentState :: SystemState

definition SafetyManager_ctor :: SafetyManager where
  "SafetyManager_ctor = \<lparr> m_currentState = NORMAL \<rparr>"

text \<open>
  The three range-for loops of \<^verbatim>\<open>evaluate\<close>. Each walks the cells in order, sets
  \<^verbatim>\<open>proposedState\<close> at the first cell that matches and breaks; when no cell matches,
  \<^verbatim>\<open>proposedState\<close> keeps the value it had before the loop.
\<close>

fun faultLoop :: "BatteryCell list \<Rightarrow> SystemState \<Rightarrow> SystemState" where
  "faultLoop [] proposedState = proposedState"
| "faultLoop (cell # cells) proposedState =
     (if isVoltageFault (m_voltage cell) \<or> isTemperatureFault (m_temperature cell)
      then FAULT
      else faultLoop cells proposedState)"

fun criticalLoop :: "BatteryCell list \<Rightarrow> SystemState \<Rightarrow> SystemState" where
  "criticalLoop [] proposedState = proposedState"
| "criticalLoop (cell # cells) proposedState =
     (if isVoltageCritical (m_voltage cell) \<or> isTemperatureCritical (m_temperature cell)
      then CRITICAL
      else criticalLoop cells proposedState)"

fun warningLoop :: "BatteryCell list \<Rightarrow> SystemState \<Rightarrow> SystemState" where
  "warningLoop [] proposedState = proposedState"
| "warningLoop (cell # cells) proposedState =
     (if isVoltageWarning (m_voltage cell) \<or> isTemperatureWarning (m_temperature cell)
      then WARNING
      else warningLoop cells proposedState)"

text \<open>
  The value of the local \<^verbatim>\<open>proposedState\<close> when \<^verbatim>\<open>evaluate\<close> reaches its last
  \<^verbatim>\<open>if\<close> (source lines 165 to 201).
\<close>

definition proposedState :: "BatteryCell list \<Rightarrow> real \<Rightarrow> real \<Rightarrow> SystemState" where
  "proposedState cells packCurrent stateOfHealth_percent =
     (let p0 = NORMAL;
          p1 = faultLoop cells p0;
          p2 = (if p1 \<noteq> FAULT
                then (if isCurrentCritical packCurrent \<or> isSoHCritical stateOfHealth_percent
                      then CRITICAL
                      else criticalLoop cells p1)
                else p1);
          p3 = (if p2 = NORMAL
                then (if isCurrentWarning packCurrent \<or> isSoHWarning stateOfHealth_percent
                      then WARNING
                      else warningLoop cells p2)
                else p2)
      in p3)"

text \<open>
  \<^verbatim>\<open>evaluate\<close> returns the manager after the call, and the transition it printed
  (old tier, new tier), if it printed one.
\<close>

definition evaluate ::
  "SafetyManager \<Rightarrow> BatteryCell list \<Rightarrow> real \<Rightarrow> real \<Rightarrow>
     SafetyManager \<times> (SystemState \<times> SystemState) option" where
  "evaluate sm cells packCurrent stateOfHealth_percent =
     (let p = proposedState cells packCurrent stateOfHealth_percent
      in if p \<noteq> m_currentState sm
         then (sm\<lparr>m_currentState := p\<rparr>, Some (m_currentState sm, p))
         else (sm, None))"

definition getCurrentState :: "SafetyManager \<Rightarrow> SystemState" where
  "getCurrentState sm = m_currentState sm"

subsection \<open>The measurement source\<close>

text \<open>
  \<^verbatim>\<open>SensorSimulator\<close> draws every reading from a random number generator, so the
  program fixes nothing about the values it returns. One tick's readings are an input
  of the model: the voltage and the temperature returned for each cell index, and the
  pack current.
\<close>

record SensorSimulator =
  readVoltage :: "nat \<Rightarrow> real"
  readTemperature :: "nat \<Rightarrow> real"
  readCurrent :: real

subsection \<open>src/BMS.cpp\<close>

record BMS =
  m_safetyManager :: SafetyManager
  m_cells :: "BatteryCell list"
  m_packCurrent :: real
  m_accumulatedCharge_mAh :: real
  m_stateOfCharge_percent :: real
  m_stateOfHealth_percent :: real
  m_chargeCycles :: real
  m_wasFull :: bool
  m_wasEmpty :: bool
  m_isChargingFlag :: bool

definition BMS_ctor :: BMS where
  "BMS_ctor =
     \<lparr> m_safetyManager = SafetyManager_ctor,
       m_cells = [\<lparr> m_id = 0, m_voltage = 0.0, m_temperature = 0.0 \<rparr>,
                  \<lparr> m_id = 1, m_voltage = 0.0, m_temperature = 0.0 \<rparr>,
                  \<lparr> m_id = 2, m_voltage = 0.0, m_temperature = 0.0 \<rparr>,
                  \<lparr> m_id = 3, m_voltage = 0.0, m_temperature = 0.0 \<rparr>],
       m_packCurrent = 0.0,
       m_accumulatedCharge_mAh = NOMINAL_CAPACITY_MAH * 0.5,
       m_stateOfCharge_percent = 50.0,
       m_stateOfHealth_percent = 100.0,
       m_chargeCycles = 0.0,
       m_wasFull = False,
       m_wasEmpty = False,
       m_isChargingFlag = False \<rparr>"

text \<open>
  The local \<^verbatim>\<open>charge_change_mAh\<close> of \<^verbatim>\<open>updateSoC\<close> at the point where it is
  added to the accumulated charge (source lines 44 to 54).
\<close>

definition charge_change_mAh :: "real \<Rightarrow> real \<Rightarrow> real" where
  "charge_change_mAh packCurrent deltaTime_s =
     (let current_mA = packCurrent * 1000.0;
          change = current_mA * (deltaTime_s / 3600.0)
      in if current_mA > IDLE_CURRENT_THRESHOLD_A * 1000.0
         then change * CHARGE_EFFICIENCY
         else change)"

definition updateSoC :: "BMS \<Rightarrow> real \<Rightarrow> BMS" where
  "updateSoC s deltaTime_s =
     (let acc0 = m_accumulatedCharge_mAh s + charge_change_mAh (m_packCurrent s) deltaTime_s;
          acc1 = (if acc0 > NOMINAL_CAPACITY_MAH then NOMINAL_CAPACITY_MAH
                  else if acc0 < 0.0 then 0.0
                  else acc0);
          soc0 = (acc1 / NOMINAL_CAPACITY_MAH) * 100.0;
          soc1 = (if soc0 > 100.0 then 100.0 else soc0);
          soc2 = (if soc1 < 0.0 then 0.0 else soc1)
      in s\<lparr>m_accumulatedCharge_mAh := acc1, m_stateOfCharge_percent := soc2\<rparr>)"

definition updateSoH :: "BMS \<Rightarrow> BMS" where
  "updateSoH s =
     (let s1 = (if m_stateOfCharge_percent s \<ge> SOC_FULL_THRESHOLD_PERCENT
                then s\<lparr>m_wasFull := True\<rparr> else s);
          s2 = (if m_stateOfCharge_percent s1 \<le> SOC_EMPTY_THRESHOLD_PERCENT
                then s1\<lparr>m_wasEmpty := True\<rparr> else s1);
          s3 = (if m_wasFull s2 \<and> m_wasEmpty s2
                then s2\<lparr>m_chargeCycles := m_chargeCycles s2 + 0.5,
                        m_wasFull := False,
                        m_wasEmpty := False\<rparr>
                else s2);
          soh0 = 100.0 - (m_chargeCycles s3 * 0.1);
          soh1 = (if soh0 > 100.0 then 100.0 else soh0);
          soh2 = (if soh1 < 0.0 then 0.0 else soh1)
      in s3\<lparr>m_stateOfHealth_percent := soh2\<rparr>)"

text \<open>
  The first loop of \<^verbatim>\<open>update\<close>: for each index below \<^verbatim>\<open>NUM_CELLS\<close>, the cell at
  that index takes the voltage and the temperature read for it. The array has
  \<^verbatim>\<open>NUM_CELLS\<close> elements in the program; on a shorter list the update of a missing
  index changes nothing.
\<close>

function readCells :: "SensorSimulator \<Rightarrow> nat \<Rightarrow> BatteryCell list \<Rightarrow> BatteryCell list" where
  "readCells sim i cells =
     (if i < NUM_CELLS
      then readCells sim (Suc i)
             (cells[i := (cells ! i)\<lparr>m_voltage := readVoltage sim i,
                                     m_temperature := readTemperature sim i\<rparr>])
      else cells)"
  by pat_completeness auto
termination
  by (relation "measure (\<lambda>(sim, i, cells). NUM_CELLS - i)") auto

text \<open>
  \<^verbatim>\<open>update\<close>, in the order of its source: step 1 reads the sensors into the cells
  and the pack current; the charging state is determined; step 2 updates the state of
  charge and then the state of health; step 3 evaluates safety. Steps 4 and 5 only print.
\<close>

definition readSensorData :: "BMS \<Rightarrow> SensorSimulator \<Rightarrow> BMS" where
  "readSensorData s sim =
     s\<lparr>m_cells := readCells sim 0 (m_cells s), m_packCurrent := readCurrent sim\<rparr>"

definition determineChargingState :: "BMS \<Rightarrow> BMS" where
  "determineChargingState s =
     (if m_packCurrent s > IDLE_CURRENT_THRESHOLD_A
      then s\<lparr>m_isChargingFlag := True\<rparr>
      else if m_packCurrent s < - IDLE_CURRENT_THRESHOLD_A
      then s\<lparr>m_isChargingFlag := False\<rparr>
      else s)"

definition evaluateSafety :: "BMS \<Rightarrow> BMS" where
  "evaluateSafety s =
     s\<lparr>m_safetyManager :=
         fst (evaluate (m_safetyManager s) (m_cells s) (m_packCurrent s)
                (m_stateOfHealth_percent s))\<rparr>"

definition update :: "BMS \<Rightarrow> SensorSimulator \<Rightarrow> real \<Rightarrow> BMS" where
  "update s sim deltaTime_s =
     evaluateSafety
       (updateSoH
          (updateSoC (determineChargingState (readSensorData s sim)) deltaTime_s))"

definition getSoC :: "BMS \<Rightarrow> real" where
  "getSoC s = m_stateOfCharge_percent s"

definition getSoH :: "BMS \<Rightarrow> real" where
  "getSoH s = m_stateOfHealth_percent s"

definition isCharging :: "BMS \<Rightarrow> bool" where
  "isCharging s = m_isChargingFlag s"

text \<open>
  The main loop calls \<^verbatim>\<open>update\<close> once per tick. A run is the list of the ticks'
  readings and elapsed times; \<open>run\<close> is the state after the last tick and \<open>trace\<close> the
  list of the states after each tick.
\<close>

fun run :: "BMS \<Rightarrow> (SensorSimulator \<times> real) list \<Rightarrow> BMS" where
  "run s [] = s"
| "run s ((sim, deltaTime_s) # ticks) = run (update s sim deltaTime_s) ticks"


text \<open>The ranges the data model gives for the two percentages and the accumulated charge.\<close>

definition withinBounds :: "BMS \<Rightarrow> bool" where
  "withinBounds s \<longleftrightarrow>
     0 \<le> m_stateOfCharge_percent s \<and> m_stateOfCharge_percent s \<le> 100 \<and>
     0 \<le> m_stateOfHealth_percent s \<and> m_stateOfHealth_percent s \<le> 100 \<and>
     0 \<le> m_accumulatedCharge_mAh s \<and> m_accumulatedCharge_mAh s \<le> NOMINAL_CAPACITY_MAH"

text \<open>
  The state of health agrees with the cycle count: it is the clamped value that
  \<^verbatim>\<open>updateSoH\<close> computes from \<^verbatim>\<open>m_chargeCycles\<close>.
\<close>

definition sohConsistent :: "BMS \<Rightarrow> bool" where
  "sohConsistent s \<longleftrightarrow>
     m_stateOfHealth_percent s = max 0 (min 100 (100 - m_chargeCycles s * 0.1))"

subsection \<open>IEEE 754 binary32 arithmetic\<close>

text \<open>
  A binary32 value is a finite number, an infinity or NaN. A finite value carries the
  real number it denotes. The two zeros are not told apart: the program compares them
  as equal and never divides by a variable.
\<close>

datatype float32 = Finite real | PInf | NInf | NaN













fun fle :: "float32 \<Rightarrow> float32 \<Rightarrow> bool" where
  "fle (Finite x) (Finite y) \<longleftrightarrow> x \<le> y"
| "fle (Finite x) PInf \<longleftrightarrow> True"
| "fle (Finite x) NInf \<longleftrightarrow> False"
| "fle PInf (Finite y) \<longleftrightarrow> False"
| "fle PInf PInf \<longleftrightarrow> True"
| "fle PInf NInf \<longleftrightarrow> False"
| "fle NInf (Finite y) \<longleftrightarrow> True"
| "fle NInf PInf \<longleftrightarrow> True"
| "fle NInf NInf \<longleftrightarrow> True"
| "fle NaN b \<longleftrightarrow> False"
| "fle a NaN \<longleftrightarrow> False"





fun isNaN :: "float32 \<Rightarrow> bool" where
  "isNaN (Finite x) \<longleftrightarrow> False"
| "isNaN PInf \<longleftrightarrow> False"
| "isNaN NInf \<longleftrightarrow> False"
| "isNaN NaN \<longleftrightarrow> True"

subsection \<open>src/BMS.cpp: the estimators in binary32 arithmetic\<close>













text \<open>
  The bounds of the data model; a NaN or an infinity is in no range. A tick is in order
  when its pack current and its elapsed time are finite and the product of
  \<^verbatim>\<open>current_mA\<close> and the elapsed hours is not NaN, that is, unless
  \<^verbatim>\<open>current_mA\<close> has overflowed to an infinity while the elapsed hours are zero.
  The estimators are in order when the accumulated charge is finite and the cycle count
  is not NaN.
\<close>

definition inRange :: "real \<Rightarrow> real \<Rightarrow> float32 \<Rightarrow> bool" where
  "inRange lo hi a \<longleftrightarrow> fle (Finite lo) a \<and> fle a (Finite hi)"





section \<open>The severity classifier\<close>

lemmas Constants_defs =
  NUM_CELLS_def NOMINAL_CAPACITY_MAH_def CHARGE_EFFICIENCY_def
  SOC_FULL_THRESHOLD_PERCENT_def SOC_EMPTY_THRESHOLD_PERCENT_def
  MIN_VOLTAGE_NORMAL_def MIN_VOLTAGE_WARNING_def MIN_VOLTAGE_CRITICAL_def MIN_VOLTAGE_FAULT_def
  MAX_VOLTAGE_NORMAL_def MAX_VOLTAGE_WARNING_def MAX_VOLTAGE_CRITICAL_def MAX_VOLTAGE_FAULT_def
  MIN_TEMP_NORMAL_def MIN_TEMP_WARNING_def MIN_TEMP_CRITICAL_def MIN_TEMP_FAULT_def
  MAX_TEMP_NORMAL_def MAX_TEMP_WARNING_def MAX_TEMP_CRITICAL_def MAX_TEMP_FAULT_def
  IDLE_CURRENT_THRESHOLD_A_def
  MAX_DISCHARGE_CURRENT_NORMAL_A_def MAX_DISCHARGE_CURRENT_WARNING_A_def
  MAX_DISCHARGE_CURRENT_CRITICAL_A_def
  MAX_CHARGE_CURRENT_NORMAL_A_def MAX_CHARGE_CURRENT_WARNING_A_def
  MAX_CHARGE_CURRENT_CRITICAL_A_def
  SOH_THRESHOLD_WARNING_def SOH_THRESHOLD_CRITICAL_def

lemmas band_defs =
  isVoltageNormal_def isVoltageWarning_def isVoltageCritical_def isVoltageFault_def
  isTemperatureNormal_def isTemperatureWarning_def isTemperatureCritical_def
  isTemperatureFault_def isCurrentNormal_def isCurrentWarning_def isCurrentCritical_def
  isSoHNormal_def isSoHWarning_def isSoHCritical_def

lemma faultLoop_hit:
  "cell \<in> set cells \<Longrightarrow>
   isVoltageFault (m_voltage cell) \<or> isTemperatureFault (m_temperature cell) \<Longrightarrow>
   faultLoop cells p = FAULT"
  by (induction cells) auto

lemma faultLoop_miss:
  "\<forall>cell \<in> set cells. \<not> isVoltageFault (m_voltage cell) \<and> \<not> isTemperatureFault (m_temperature cell) \<Longrightarrow>
   faultLoop cells p = p"
  by (induction cells) auto

lemma criticalLoop_miss:
  "\<forall>cell \<in> set cells. \<not> isVoltageCritical (m_voltage cell) \<and> \<not> isTemperatureCritical (m_temperature cell) \<Longrightarrow>
   criticalLoop cells p = p"
  by (induction cells) auto

lemma criticalLoop_hit:
  "cell \<in> set cells \<Longrightarrow>
   isVoltageCritical (m_voltage cell) \<or> isTemperatureCritical (m_temperature cell) \<Longrightarrow>
   criticalLoop cells p = CRITICAL"
  by (induction cells) auto

lemma warningLoop_miss:
  "\<forall>cell \<in> set cells. \<not> isVoltageWarning (m_voltage cell) \<and> \<not> isTemperatureWarning (m_temperature cell) \<Longrightarrow>
   warningLoop cells p = p"
  by (induction cells) auto

lemma evaluate_state:
  "m_currentState (fst (evaluate sm cells packCurrent soh)) = proposedState cells packCurrent soh"
  by (simp add: evaluate_def Let_def)

lemma evaluate_report:
  "snd (evaluate sm cells packCurrent soh) =
     (if proposedState cells packCurrent soh \<noteq> m_currentState sm
      then Some (m_currentState sm, proposedState cells packCurrent soh) else None)"
  by (simp add: evaluate_def Let_def)

lemma proposedState_fault:
  "cell \<in> set cells \<Longrightarrow>
   isVoltageFault (m_voltage cell) \<or> isTemperatureFault (m_temperature cell) \<Longrightarrow>
   proposedState cells packCurrent soh = FAULT"
  by (simp add: proposedState_def Let_def faultLoop_hit)

text \<open>
  Claim C3. When some cell of the pack has a voltage below 1.00 V or above 4.80 V, or a
  temperature below -20 C or above 70 C, \<^verbatim>\<open>evaluate\<close> leaves the manager in state
  FAULT, whatever the other cells, the pack current, the state of health and the prior
  state are.
\<close>

theorem C3_fault_reading_forces_FAULT:
  assumes "cell \<in> set cells"
    and "m_voltage cell < 1.00 \<or> m_voltage cell > 4.80 \<or>
         m_temperature cell < - 20 \<or> m_temperature cell > 70"
  shows "getCurrentState (fst (evaluate sm cells packCurrent stateOfHealth_percent)) = FAULT"
proof -
  from assms(2)
  have "isVoltageFault (m_voltage cell) \<or> isTemperatureFault (m_temperature cell)"
    by (auto simp: isVoltageFault_def isTemperatureFault_def Constants_defs)
  with assms(1) have "proposedState cells packCurrent stateOfHealth_percent = FAULT"
    by (rule proposedState_fault)
  then show ?thesis
    by (simp add: getCurrentState_def evaluate_state)
qed

text \<open>One cell at 0.5 V among three cells at 3.5 V and 25 C, 1 A, 100 percent health.\<close>

theorem C3_fault_reading_forces_FAULT_witness:
  "getCurrentState (fst (evaluate SafetyManager_ctor
      [\<lparr> m_id = 0, m_voltage = 3.5, m_temperature = 25 \<rparr>,
       \<lparr> m_id = 1, m_voltage = 0.5, m_temperature = 25 \<rparr>,
       \<lparr> m_id = 2, m_voltage = 3.5, m_temperature = 25 \<rparr>,
       \<lparr> m_id = 3, m_voltage = 3.5, m_temperature = 25 \<rparr>] 1 100)) = FAULT"
  using C3_fault_reading_forces_FAULT
    [of "\<lparr> m_id = 1, m_voltage = 0.5, m_temperature = 25 \<rparr>"
        "[\<lparr> m_id = 0, m_voltage = 3.5, m_temperature = 25 \<rparr>,
       \<lparr> m_id = 1, m_voltage = 0.5, m_temperature = 25 \<rparr>,
       \<lparr> m_id = 2, m_voltage = 3.5, m_temperature = 25 \<rparr>,
       \<lparr> m_id = 3, m_voltage = 3.5, m_temperature = 25 \<rparr>]" SafetyManager_ctor 1 100]
  by simp

text \<open>
  Claim C9. The manager after \<^verbatim>\<open>evaluate\<close> does not depend on the manager before
  it: two calls on the same cells, pack current and state of health end in the same
  state, which is the tier computed from these inputs. The prior state only decides
  whether a transition is printed.
\<close>

theorem C9_evaluate_ignores_prior_state:
  "fst (evaluate sm1 cells packCurrent stateOfHealth_percent) =
   fst (evaluate sm2 cells packCurrent stateOfHealth_percent) \<and>
   getCurrentState (fst (evaluate sm1 cells packCurrent stateOfHealth_percent)) =
     proposedState cells packCurrent stateOfHealth_percent \<and>
   snd (evaluate sm1 cells packCurrent stateOfHealth_percent) =
     (if proposedState cells packCurrent stateOfHealth_percent = m_currentState sm1 then None
      else Some (m_currentState sm1, proposedState cells packCurrent stateOfHealth_percent))"
  by (cases sm1; cases sm2) (simp add: evaluate_def Let_def getCurrentState_def)

text \<open>
  Claim C1 says that a pack current of -22 A, beyond the 20 A critical discharge
  maximum, with all cells normal and full health gives CRITICAL. In the source
  \<^verbatim>\<open>isCurrentCritical\<close> is bounded below by \<^verbatim>\<open>-MAX_DISCHARGE_CURRENT_CRITICAL_A\<close>, so
  -22 A is in no current band at all: not normal, not warning, not critical. No other
  signal raises the tier, and the result is NORMAL. The cells are at 3.5 V and 25 C.
\<close>

theorem C1_code_yields_NORMAL_at_minus_22A:
  "\<not> isCurrentNormal (- 22) \<and> \<not> isCurrentWarning (- 22) \<and> \<not> isCurrentCritical (- 22) \<and>
   getCurrentState (fst (evaluate SafetyManager_ctor
      [\<lparr> m_id = 0, m_voltage = 3.5, m_temperature = 25 \<rparr>,
       \<lparr> m_id = 1, m_voltage = 3.5, m_temperature = 25 \<rparr>,
       \<lparr> m_id = 2, m_voltage = 3.5, m_temperature = 25 \<rparr>,
       \<lparr> m_id = 3, m_voltage = 3.5, m_temperature = 25 \<rparr>] (- 22) 100)) = NORMAL"
  by (simp add: getCurrentState_def evaluate_state proposedState_def Let_def band_defs
      Constants_defs)

text \<open>
  Claim C2 says that a cell voltage in the range from 1.00 V up to 2.80 V gives
  CRITICAL. In the source \<^verbatim>\<open>isVoltageCritical\<close> starts at \<^verbatim>\<open>MIN_VOLTAGE_CRITICAL\<close>,
  2.50 V, so a cell at 2.0 V is in no voltage band at all: not normal, not warning, not
  critical, not fault. With the other cells at 3.5 V, all at 25 C, no current and full
  health the result is NORMAL.
\<close>

theorem C2_code_yields_NORMAL_at_2V:
  "\<not> isVoltageNormal 2.0 \<and> \<not> isVoltageWarning 2.0 \<and> \<not> isVoltageCritical 2.0 \<and>
   \<not> isVoltageFault 2.0 \<and>
   getCurrentState (fst (evaluate SafetyManager_ctor
      [\<lparr> m_id = 0, m_voltage = 2.0, m_temperature = 25 \<rparr>,
       \<lparr> m_id = 1, m_voltage = 3.5, m_temperature = 25 \<rparr>,
       \<lparr> m_id = 2, m_voltage = 3.5, m_temperature = 25 \<rparr>,
       \<lparr> m_id = 3, m_voltage = 3.5, m_temperature = 25 \<rparr>] 0 100)) = NORMAL"
  by (simp add: getCurrentState_def evaluate_state proposedState_def Let_def band_defs
      Constants_defs)

section \<open>The charge and health estimators\<close>

lemma updateSoC_frame:
  "m_chargeCycles (updateSoC s dt) = m_chargeCycles s"
  "m_stateOfHealth_percent (updateSoC s dt) = m_stateOfHealth_percent s"
  "m_wasFull (updateSoC s dt) = m_wasFull s"
  "m_wasEmpty (updateSoC s dt) = m_wasEmpty s"
  "m_isChargingFlag (updateSoC s dt) = m_isChargingFlag s"
  "m_packCurrent (updateSoC s dt) = m_packCurrent s"
  "m_cells (updateSoC s dt) = m_cells s"
  "m_safetyManager (updateSoC s dt) = m_safetyManager s"
  by (simp_all add: updateSoC_def Let_def)

lemma updateSoC_bounds:
  "0 \<le> m_accumulatedCharge_mAh (updateSoC s dt)"
  "m_accumulatedCharge_mAh (updateSoC s dt) \<le> NOMINAL_CAPACITY_MAH"
  "0 \<le> m_stateOfCharge_percent (updateSoC s dt)"
  "m_stateOfCharge_percent (updateSoC s dt) \<le> 100"
  by (simp_all add: updateSoC_def Let_def NOMINAL_CAPACITY_MAH_def)

lemma updateSoH_frame:
  "m_accumulatedCharge_mAh (updateSoH s) = m_accumulatedCharge_mAh s"
  "m_stateOfCharge_percent (updateSoH s) = m_stateOfCharge_percent s"
  "m_isChargingFlag (updateSoH s) = m_isChargingFlag s"
  "m_packCurrent (updateSoH s) = m_packCurrent s"
  "m_cells (updateSoH s) = m_cells s"
  "m_safetyManager (updateSoH s) = m_safetyManager s"
  by (simp_all add: updateSoH_def Let_def)

lemma updateSoH_cycles:
  "m_chargeCycles (updateSoH s) =
     (if (m_wasFull s \<or> 98 \<le> m_stateOfCharge_percent s) \<and>
         (m_wasEmpty s \<or> m_stateOfCharge_percent s \<le> 10)
      then m_chargeCycles s + 0.5 else m_chargeCycles s)"
  by (simp add: updateSoH_def Let_def SOC_FULL_THRESHOLD_PERCENT_def
      SOC_EMPTY_THRESHOLD_PERCENT_def)

lemma updateSoH_wasFull:
  "m_wasFull (updateSoH s) \<longleftrightarrow>
     (m_wasFull s \<or> 98 \<le> m_stateOfCharge_percent s) \<and>
     \<not> (m_wasEmpty s \<or> m_stateOfCharge_percent s \<le> 10)"
  by (auto simp add: updateSoH_def Let_def SOC_FULL_THRESHOLD_PERCENT_def
      SOC_EMPTY_THRESHOLD_PERCENT_def)

lemma updateSoH_wasEmpty:
  "m_wasEmpty (updateSoH s) \<longleftrightarrow>
     (m_wasEmpty s \<or> m_stateOfCharge_percent s \<le> 10) \<and>
     \<not> (m_wasFull s \<or> 98 \<le> m_stateOfCharge_percent s)"
  by (auto simp add: updateSoH_def Let_def SOC_FULL_THRESHOLD_PERCENT_def
      SOC_EMPTY_THRESHOLD_PERCENT_def)

lemma updateSoH_soh:
  "m_stateOfHealth_percent (updateSoH s) =
     max 0 (min 100 (100 - m_chargeCycles (updateSoH s) * 0.1))"
  by (simp add: updateSoH_def Let_def max_def min_def)

lemma updateSoH_bounds:
  "0 \<le> m_stateOfHealth_percent (updateSoH s)"
  "m_stateOfHealth_percent (updateSoH s) \<le> 100"
  by (simp_all add: updateSoH_soh)

lemma readSensorData_frame:
  "m_accumulatedCharge_mAh (readSensorData s sim) = m_accumulatedCharge_mAh s"
  "m_stateOfCharge_percent (readSensorData s sim) = m_stateOfCharge_percent s"
  "m_stateOfHealth_percent (readSensorData s sim) = m_stateOfHealth_percent s"
  "m_chargeCycles (readSensorData s sim) = m_chargeCycles s"
  "m_wasFull (readSensorData s sim) = m_wasFull s"
  "m_wasEmpty (readSensorData s sim) = m_wasEmpty s"
  "m_isChargingFlag (readSensorData s sim) = m_isChargingFlag s"
  "m_safetyManager (readSensorData s sim) = m_safetyManager s"
  "m_packCurrent (readSensorData s sim) = readCurrent sim"
  by (simp_all add: readSensorData_def)

lemma determineChargingState_frame:
  "m_accumulatedCharge_mAh (determineChargingState s) = m_accumulatedCharge_mAh s"
  "m_stateOfCharge_percent (determineChargingState s) = m_stateOfCharge_percent s"
  "m_stateOfHealth_percent (determineChargingState s) = m_stateOfHealth_percent s"
  "m_chargeCycles (determineChargingState s) = m_chargeCycles s"
  "m_wasFull (determineChargingState s) = m_wasFull s"
  "m_wasEmpty (determineChargingState s) = m_wasEmpty s"
  "m_packCurrent (determineChargingState s) = m_packCurrent s"
  "m_cells (determineChargingState s) = m_cells s"
  "m_safetyManager (determineChargingState s) = m_safetyManager s"
  by (simp_all add: determineChargingState_def)

lemma evaluateSafety_frame:
  "m_accumulatedCharge_mAh (evaluateSafety s) = m_accumulatedCharge_mAh s"
  "m_stateOfCharge_percent (evaluateSafety s) = m_stateOfCharge_percent s"
  "m_stateOfHealth_percent (evaluateSafety s) = m_stateOfHealth_percent s"
  "m_chargeCycles (evaluateSafety s) = m_chargeCycles s"
  "m_wasFull (evaluateSafety s) = m_wasFull s"
  "m_wasEmpty (evaluateSafety s) = m_wasEmpty s"
  "m_isChargingFlag (evaluateSafety s) = m_isChargingFlag s"
  "m_packCurrent (evaluateSafety s) = m_packCurrent s"
  "m_cells (evaluateSafety s) = m_cells s"
  by (simp_all add: evaluateSafety_def)

lemmas frame =
  updateSoC_frame updateSoH_frame readSensorData_frame determineChargingState_frame
  evaluateSafety_frame

lemma update_cycles:
  "m_chargeCycles (update s sim dt) =
     (if (m_wasFull s \<or> 98 \<le> m_stateOfCharge_percent (update s sim dt)) \<and>
         (m_wasEmpty s \<or> m_stateOfCharge_percent (update s sim dt) \<le> 10)
      then m_chargeCycles s + 0.5 else m_chargeCycles s)"
  by (simp add: update_def frame updateSoH_cycles)



lemma update_soh:
  "m_stateOfHealth_percent (update s sim dt) =
     max 0 (min 100 (100 - m_chargeCycles (update s sim dt) * 0.1))"
  by (simp add: update_def frame updateSoH_soh)

lemma update_withinBounds: "withinBounds (update s sim dt)"
  by (simp add: withinBounds_def update_def frame updateSoC_bounds updateSoH_bounds)

lemma run_withinBounds: "withinBounds s \<Longrightarrow> withinBounds (run s ticks)"
  by (induction s ticks rule: run.induct) (simp_all add: update_withinBounds)

lemma charge_change_mAh_eq:
  "charge_change_mAh packCurrent deltaTime_s =
     (if packCurrent > 0.05
      then packCurrent * 1000 * (deltaTime_s / 3600) * 0.98
      else packCurrent * 1000 * (deltaTime_s / 3600))"
  by (simp add: charge_change_mAh_def Let_def IDLE_CURRENT_THRESHOLD_A_def
      CHARGE_EFFICIENCY_def)

lemma updateSoC_accumulated:
  "m_accumulatedCharge_mAh (updateSoC s deltaTime_s) =
     (let acc = m_accumulatedCharge_mAh s + charge_change_mAh (m_packCurrent s) deltaTime_s
      in if acc > 3000 then 3000 else if acc < 0 then 0 else acc)"
  by (simp add: updateSoC_def Let_def NOMINAL_CAPACITY_MAH_def)




text \<open>
  Claim C5. The charge delta of \<^verbatim>\<open>updateSoC\<close> is the pack current in mA times the
  elapsed hours, multiplied by 0.98 exactly when the pack current is above 0.05 A. At
  exactly 0.05 A it is not scaled, and a discharge delta (a current that is not positive)
  is never scaled. \<^verbatim>\<open>updateSoC\<close> adds this delta to the accumulated charge and clamps.
\<close>

theorem C5_efficiency_only_above_idle_threshold:
  "charge_change_mAh packCurrent deltaTime_s =
     (if packCurrent > 0.05
      then packCurrent * 1000 * (deltaTime_s / 3600) * 0.98
      else packCurrent * 1000 * (deltaTime_s / 3600)) \<and>
   charge_change_mAh 0.05 deltaTime_s = 0.05 * 1000 * (deltaTime_s / 3600) \<and>
   charge_change_mAh (- \<bar>packCurrent\<bar>) deltaTime_s =
     - \<bar>packCurrent\<bar> * 1000 * (deltaTime_s / 3600) \<and>
   m_accumulatedCharge_mAh (updateSoC s deltaTime_s) =
     (let acc = m_accumulatedCharge_mAh s + charge_change_mAh (m_packCurrent s) deltaTime_s
      in if acc > 3000 then 3000 else if acc < 0 then 0 else acc)"
proof -
  have idle: "charge_change_mAh 0.05 deltaTime_s = 0.05 * 1000 * (deltaTime_s / 3600)"
    by (simp add: charge_change_mAh_eq)
  have "\<not> (- \<bar>packCurrent\<bar> > 0.05)"
    by simp
  then have discharge: "charge_change_mAh (- \<bar>packCurrent\<bar>) deltaTime_s =
     - \<bar>packCurrent\<bar> * 1000 * (deltaTime_s / 3600)"
    by (simp only: charge_change_mAh_eq if_False)
  show ?thesis
    using idle discharge charge_change_mAh_eq [of packCurrent deltaTime_s]
      updateSoC_accumulated [of s deltaTime_s]
    by blast
qed






lemma update_sohConsistent: "sohConsistent (update s sim dt)"
  by (simp add: sohConsistent_def update_soh)

lemma run_sohConsistent: "sohConsistent s \<Longrightarrow> sohConsistent (run s ticks)"
  by (induction s ticks rule: run.induct) (simp_all add: update_sohConsistent)

lemma BMS_ctor_sohConsistent: "sohConsistent BMS_ctor"
  by (simp add: sohConsistent_def BMS_ctor_def)

lemma updateSoH_cycles_mono: "m_chargeCycles s \<le> m_chargeCycles (updateSoH s)"
  by (simp add: updateSoH_cycles)

lemma updateSoH_soh_mono:
  assumes "sohConsistent s"
  shows "m_stateOfHealth_percent (updateSoH s) \<le> m_stateOfHealth_percent s"
proof -
  have "100 - m_chargeCycles (updateSoH s) * 0.1 \<le> 100 - m_chargeCycles s * 0.1"
    using updateSoH_cycles_mono [of s] by simp
  then have "max 0 (min 100 (100 - m_chargeCycles (updateSoH s) * 0.1))
           \<le> max 0 (min 100 (100 - m_chargeCycles s * 0.1))"
    by (intro max.mono min.mono order_refl)
  with assms show ?thesis
    by (simp only: updateSoH_soh sohConsistent_def)
qed

lemma update_soh_mono:
  assumes "sohConsistent s"
  shows "m_stateOfHealth_percent (update s sim dt) \<le> m_stateOfHealth_percent s"
proof -
  let ?s = "updateSoC (determineChargingState (readSensorData s sim)) dt"
  have "sohConsistent ?s"
    using assms by (simp add: sohConsistent_def frame)
  then have "m_stateOfHealth_percent (updateSoH ?s) \<le> m_stateOfHealth_percent ?s"
    by (rule updateSoH_soh_mono)
  then show ?thesis
    by (simp add: update_def frame)
qed

text \<open>
  Claim C7. In every run from the constructor's state, a further call of \<^verbatim>\<open>update\<close>
  (whose \<^verbatim>\<open>updateSoH\<close> is the only writer of the state of health) never raises the
  state of health: the cycle count does not decrease, and the state of health is 100
  minus a tenth of the cycle count, clamped to [0, 100].
\<close>

theorem C7_state_of_health_never_increases:
  "m_stateOfHealth_percent (update (run BMS_ctor ticks) sim deltaTime_s)
     \<le> m_stateOfHealth_percent (run BMS_ctor ticks) \<and>
   m_chargeCycles (run BMS_ctor ticks)
     \<le> m_chargeCycles (update (run BMS_ctor ticks) sim deltaTime_s) \<and>
   m_stateOfHealth_percent (update (run BMS_ctor ticks) sim deltaTime_s) =
     max 0 (min 100 (100 - m_chargeCycles (update (run BMS_ctor ticks) sim deltaTime_s) * 0.1))"
proof -
  have "sohConsistent (run BMS_ctor ticks)"
    by (rule run_sohConsistent) (rule BMS_ctor_sohConsistent)
  then have "m_stateOfHealth_percent (update (run BMS_ctor ticks) sim deltaTime_s)
     \<le> m_stateOfHealth_percent (run BMS_ctor ticks)"
    by (rule update_soh_mono)
  moreover have "m_chargeCycles (run BMS_ctor ticks)
     \<le> m_chargeCycles (update (run BMS_ctor ticks) sim deltaTime_s)"
    by (simp add: update_cycles)
  ultimately show ?thesis
    by (simp add: update_soh)
qed

lemma flag_readSensorData:
  "readSensorData (s\<lparr>m_isChargingFlag := b\<rparr>) sim =
     (readSensorData s sim)\<lparr>m_isChargingFlag := b\<rparr>"
  by (simp add: readSensorData_def)

lemma flag_determineChargingState:
  "determineChargingState (s\<lparr>m_isChargingFlag := b\<rparr>) =
     (determineChargingState s)
       \<lparr>m_isChargingFlag :=
          (if m_packCurrent s > 0.05 then True
           else if m_packCurrent s < - 0.05 then False
           else b)\<rparr>"
  by (simp add: determineChargingState_def IDLE_CURRENT_THRESHOLD_A_def)

lemma flag_updateSoC:
  "updateSoC (s\<lparr>m_isChargingFlag := b\<rparr>) dt = (updateSoC s dt)\<lparr>m_isChargingFlag := b\<rparr>"
  by (simp add: updateSoC_def Let_def)

lemma flag_updateSoH:
  "updateSoH (s\<lparr>m_isChargingFlag := b\<rparr>) = (updateSoH s)\<lparr>m_isChargingFlag := b\<rparr>"
  by (simp add: updateSoH_def Let_def)

lemma flag_evaluateSafety:
  "evaluateSafety (s\<lparr>m_isChargingFlag := b\<rparr>) = (evaluateSafety s)\<lparr>m_isChargingFlag := b\<rparr>"
  by (simp add: evaluateSafety_def)

lemma determineChargingState_flag:
  "m_isChargingFlag (determineChargingState s) =
     (if m_packCurrent s > 0.05 then True
      else if m_packCurrent s < - 0.05 then False
      else m_isChargingFlag s)"
  by (simp add: determineChargingState_def IDLE_CURRENT_THRESHOLD_A_def)

lemma determineChargingState_eq:
  "determineChargingState s =
     s\<lparr>m_isChargingFlag :=
         (if m_packCurrent s > 0.05 then True
          else if m_packCurrent s < - 0.05 then False
          else m_isChargingFlag s)\<rparr>"
  by (simp add: determineChargingState_def IDLE_CURRENT_THRESHOLD_A_def)

text \<open>
  Claim C8. After a tick the charging flag is true when the pack current read in this
  tick is above 0.05 A, false when it is below -0.05 A, and its value from before the
  tick otherwise. The rule writes the flag and nothing else: the state after the tick is
  the state that the tick without the rule would give, with the flag set by the rule.
  No other field depends on the flag either: changing the flag before the tick changes
  nothing but the flag after the tick.
\<close>

theorem C8_charging_flag_rule:
  "isCharging (update s sim deltaTime_s) =
     (if readCurrent sim > 0.05 then True
      else if readCurrent sim < - 0.05 then False
      else isCharging s) \<and>
   update (s\<lparr>m_isChargingFlag := b\<rparr>) sim deltaTime_s =
     (update s sim deltaTime_s)
       \<lparr>m_isChargingFlag :=
          (if readCurrent sim > 0.05 then True
           else if readCurrent sim < - 0.05 then False
           else b)\<rparr> \<and>
   determineChargingState s =
     s\<lparr>m_isChargingFlag :=
         (if m_packCurrent s > 0.05 then True
          else if m_packCurrent s < - 0.05 then False
          else m_isChargingFlag s)\<rparr> \<and>
   update s sim deltaTime_s =
     (evaluateSafety (updateSoH (updateSoC (readSensorData s sim) deltaTime_s)))
       \<lparr>m_isChargingFlag :=
          (if readCurrent sim > 0.05 then True
           else if readCurrent sim < - 0.05 then False
           else m_isChargingFlag s)\<rparr>"
proof (intro conjI)
  show "isCharging (update s sim deltaTime_s) =
     (if readCurrent sim > 0.05 then True
      else if readCurrent sim < - 0.05 then False
      else isCharging s)"
    by (simp only: isCharging_def update_def frame determineChargingState_flag)
next
  show "update (s\<lparr>m_isChargingFlag := b\<rparr>) sim deltaTime_s =
     (update s sim deltaTime_s)
       \<lparr>m_isChargingFlag :=
          (if readCurrent sim > 0.05 then True
           else if readCurrent sim < - 0.05 then False
           else b)\<rparr>"
    by (simp only: update_def flag_readSensorData flag_determineChargingState flag_updateSoC
        flag_updateSoH flag_evaluateSafety readSensorData_frame)
next
  show "determineChargingState s =
     s\<lparr>m_isChargingFlag :=
         (if m_packCurrent s > 0.05 then True
          else if m_packCurrent s < - 0.05 then False
          else m_isChargingFlag s)\<rparr>"
    by (rule determineChargingState_eq)
next
  have "update s sim deltaTime_s =
      evaluateSafety (updateSoH (updateSoC
        ((readSensorData s sim)\<lparr>m_isChargingFlag :=
           (if m_packCurrent (readSensorData s sim) > 0.05 then True
            else if m_packCurrent (readSensorData s sim) < - 0.05 then False
            else m_isChargingFlag (readSensorData s sim))\<rparr>) deltaTime_s))"
    unfolding update_def by (subst determineChargingState_eq) (rule refl)
  then show "update s sim deltaTime_s =
     (evaluateSafety (updateSoH (updateSoC (readSensorData s sim) deltaTime_s)))
       \<lparr>m_isChargingFlag :=
          (if readCurrent sim > 0.05 then True
           else if readCurrent sim < - 0.05 then False
           else m_isChargingFlag s)\<rparr>"
    by (simp only: flag_updateSoC flag_updateSoH flag_evaluateSafety readSensorData_frame)
qed

text \<open>
  Claim C10. After \<^verbatim>\<open>updateSoH\<close> the two latches are never both set, and the call
  has added either nothing or exactly 0.5 to the cycle count.
\<close>

theorem C10_latches_and_cycle_step:
  "\<not> (m_wasFull (updateSoH s) \<and> m_wasEmpty (updateSoH s)) \<and>
   (m_chargeCycles (updateSoH s) = m_chargeCycles s \<or>
    m_chargeCycles (updateSoH s) = m_chargeCycles s + 0.5)"
  by (auto simp add: updateSoH_cycles updateSoH_wasFull updateSoH_wasEmpty)

section \<open>The estimators in binary32 arithmetic\<close>











lemma inRange_not_NaN: "inRange lo hi a \<Longrightarrow> \<not> isNaN a"
  by (cases a) (auto simp add: inRange_def)
























end
